theory Spec2Isabelle
  imports Complex_Main
begin

section \<open>Values of the source language\<close>

text \<open>
  The program is the Python script \<^verbatim>\<open>trascrivi.py\<close>.

  \<^item> A Python \<^verbatim>\<open>float\<close> is read as the rational number it denotes, and float
    arithmetic as exact arithmetic on rationals. The values \<^verbatim>\<open>nan\<close> and
    \<^verbatim>\<open>inf\<close>, on which \<^verbatim>\<open>int(...)\<close> raises, and the rounding of a product
    to 53 bits are outside the model.
  \<^item> A Python \<^verbatim>\<open>int\<close> is an \<^typ>\<open>int\<close>.
  \<^item> A Python \<^verbatim>\<open>str\<close> is the list of its code points. The pieces of text that the
    script builds itself are ASCII; they are written as HOL strings and embedded by
    \<open>lit\<close>.
\<close>

type_synonym pystr = "nat list"

definition lit :: "string \<Rightarrow> pystr" where
  "lit cs = map of_char cs"

text \<open>Line feed, the character \<^verbatim>\<open>\n\<close>.\<close>

abbreviation LF :: nat where
  "LF \<equiv> 10"

text \<open>
  \<^verbatim>\<open>x // y\<close> and \<^verbatim>\<open>x % y\<close> on floats: the floored quotient (still a float) and the
  remainder that takes the sign of the divisor. Every call site divides by a positive
  constant, so \<^verbatim>\<open>ZeroDivisionError\<close> cannot arise.
\<close>

definition py_floordiv :: "rat \<Rightarrow> rat \<Rightarrow> rat" where
  "py_floordiv x y = of_int \<lfloor>x / y\<rfloor>"

definition py_mod :: "rat \<Rightarrow> rat \<Rightarrow> rat" where
  "py_mod x y = x - y * of_int \<lfloor>x / y\<rfloor>"

text \<open>\<^verbatim>\<open>int(x)\<close> on a float truncates towards zero.\<close>

definition py_int :: "rat \<Rightarrow> int" where
  "py_int x = (if 0 \<le> x then \<lfloor>x\<rfloor> else \<lceil>x\<rceil>)"

subsection \<open>Formatting integers\<close>

definition digit_char :: "nat \<Rightarrow> char" where
  "digit_char d = ''0123456789'' ! d"

text \<open>The decimal digits of a natural number, as \<^verbatim>\<open>str(n)\<close> prints them.\<close>

fun str_nat :: "nat \<Rightarrow> string" where
  "str_nat n =
     (if n < 10 then [digit_char n] else str_nat (n div 10) @ [digit_char (n mod 10)])"

declare str_nat.simps [simp del]

definition str_int :: "int \<Rightarrow> string" where
  "str_int n = (if n < 0 then CHR ''-'' # str_nat (nat (- n)) else str_nat (nat n))"

text \<open>
  The format specification \<^verbatim>\<open>0wd\<close> (\<^verbatim>\<open>{n:02d}\<close>, \<^verbatim>\<open>{n:03d}\<close>): the digits,
  padded on the left with zeros up to width \<open>w\<close>; a minus sign comes first and counts
  towards the width. Longer numbers are printed in full.
\<close>

definition format_0d :: "nat \<Rightarrow> int \<Rightarrow> string" where
  "format_0d w n =
     (let ds = str_nat (nat \<bar>n\<bar>) in
      if n < 0 then CHR ''-'' # replicate (w - 1 - length ds) (CHR ''0'') @ ds
      else replicate (w - length ds) (CHR ''0'') @ ds)"

subsection \<open>Formatting floats\<close>

text \<open>
  The format specification \<^verbatim>\<open>.1f\<close>: one digit after the point, rounding the exact
  value half to even. \<^verbatim>\<open>.1%\<close> formats a hundred times the value the same way and
  appends a percent sign.
\<close>

definition round_half_even :: "rat \<Rightarrow> int" where
  "round_half_even x =
     (let f = \<lfloor>x\<rfloor>; d = x - of_int f in
      if d < 1 / 2 then f else if 1 / 2 < d then f + 1 else if even f then f else f + 1)"

definition format_1f :: "rat \<Rightarrow> string" where
  "format_1f x =
     (let n = nat (round_half_even (\<bar>x\<bar> * 10)) in
      (if x < 0 then ''-'' else '''') @ str_nat (n div 10) @ ''.'' @ [digit_char (n mod 10)])"

definition format_1pct :: "rat \<Rightarrow> string" where
  "format_1pct x = format_1f (x * 100) @ ''%''"

subsection \<open>Strings\<close>

text \<open>
  The code points that \<^verbatim>\<open>str.strip()\<close> removes: those for which
  \<^verbatim>\<open>str.isspace\<close> holds.
\<close>

definition isspace :: "nat \<Rightarrow> bool" where
  "isspace c \<longleftrightarrow>
     (9 \<le> c \<and> c \<le> 13) \<or> (28 \<le> c \<and> c \<le> 32) \<or> c = 133 \<or> c = 160 \<or> c = 5760 \<or>
     (8192 \<le> c \<and> c \<le> 8202) \<or> c = 8232 \<or> c = 8233 \<or> c = 8239 \<or> c = 8287 \<or> c = 12288"

definition strip :: "pystr \<Rightarrow> pystr" where
  "strip s = rev (dropWhile isspace (rev (dropWhile isspace s)))"

text \<open>\<^verbatim>\<open>sep.join(xs)\<close>.\<close>

fun join :: "pystr \<Rightarrow> pystr list \<Rightarrow> pystr" where
  "join sep [] = []"
| "join sep [x] = x"
| "join sep (x # y # ys) = x @ sep @ join sep (y # ys)"

text \<open>\<^verbatim>\<open>sub in s\<close> on strings: \<open>sub\<close> occurs in \<open>s\<close> as a contiguous piece.\<close>

fun py_in :: "pystr \<Rightarrow> pystr \<Rightarrow> bool" where
  "py_in sub [] = (sub = [])"
| "py_in sub (c # cs) = (take (length sub) (c # cs) = sub \<or> py_in sub cs)"

text \<open>
  \<^verbatim>\<open>str.lower()\<close> restricted to the ASCII letters. The script only compares the
  lowered suffix with \<^verbatim>\<open>".mp4"\<close>, and no character outside ASCII lowers to one of
  these four, so the comparison has the same result.
\<close>

definition lower :: "pystr \<Rightarrow> pystr" where
  "lower s = map (\<lambda>c. if 65 \<le> c \<and> c \<le> 90 then c + 32 else c) s"

section \<open>Timestamps\<close>

text \<open>
  \<^verbatim>\<open>format_timestamp\<close> computes four local variables and prints them. The four
  are exposed as \<open>timestamp_fields\<close> so that statements can speak about them.
\<close>

definition timestamp_fields :: "rat \<Rightarrow> int \<times> int \<times> int \<times> int" where
  "timestamp_fields seconds =
     (let hours = py_int (py_floordiv seconds 3600);
          minutes = py_int (py_floordiv (py_mod seconds 3600) 60);
          secs = py_int (py_mod seconds 60);
          millis = py_int (py_mod seconds 1 * 1000)
      in (hours, minutes, secs, millis))"

definition format_timestamp :: "rat \<Rightarrow> string" where
  "format_timestamp seconds =
     (case timestamp_fields seconds of (hours, minutes, secs, millis) \<Rightarrow>
        format_0d 2 hours @ '':'' @ format_0d 2 minutes @ '':'' @ format_0d 2 secs
          @ '','' @ format_0d 3 millis)"

definition format_timestamp_simple :: "rat \<Rightarrow> string" where
  "format_timestamp_simple seconds =
     (let minutes = py_int (py_floordiv seconds 60);
          secs = py_int (py_mod seconds 60)
      in ''['' @ format_0d 2 minutes @ '':'' @ format_0d 2 secs @ '']'')"

subsection \<open>What the specification says about timestamps\<close>


text \<open>Reading a decimal numeral: \<open>None\<close> unless the text is one or more digits.\<close>

definition is_digit :: "char \<Rightarrow> bool" where
  "is_digit c \<longleftrightarrow> c \<in> set ''0123456789''"

definition digit_val :: "char \<Rightarrow> nat" where
  "digit_val c = of_char c - 48"

definition parse_decimal :: "string \<Rightarrow> nat option" where
  "parse_decimal cs =
     (if cs \<noteq> [] \<and> list_all is_digit cs
      then Some (foldl (\<lambda>a c. 10 * a + digit_val c) 0 cs) else None)"




section \<open>Segments and the artifact writers\<close>

text \<open>
  The dictionary \<^verbatim>\<open>seg_data\<close> that the run builds for each segment, with its six
  keys \<^verbatim>\<open>id\<close>, \<^verbatim>\<open>start\<close>, \<^verbatim>\<open>end\<close>, \<^verbatim>\<open>text\<close>, \<^verbatim>\<open>avg_logprob\<close> and
  \<^verbatim>\<open>no_speech_prob\<close>.
\<close>

record seg_data =
  seg_id :: int
  seg_start :: rat
  seg_end :: rat
  seg_text :: pystr
  seg_avg_logprob :: rat
  seg_no_speech_prob :: rat

text \<open>
  The writers open their file with mode \<^verbatim>\<open>"w"\<close> and write piece after piece. Each
  function below is the text that the file holds when the writer returns. The counter
  of \<^verbatim>\<open>enumerate(segments, 1)\<close> is the first argument of \<open>write_srt_from\<close>.
\<close>

fun write_srt_from :: "nat \<Rightarrow> seg_data list \<Rightarrow> pystr" where
  "write_srt_from i [] = []"
| "write_srt_from i (seg # segments) =
     (lit (str_nat i) @ [LF])
     @ (lit (format_timestamp (seg_start seg) @ '' --> '' @ format_timestamp (seg_end seg))
        @ [LF])
     @ (strip (seg_text seg) @ [LF, LF])
     @ write_srt_from (Suc i) segments"

definition write_srt :: "seg_data list \<Rightarrow> pystr" where
  "write_srt segments = write_srt_from 1 segments"

fun write_txt :: "seg_data list \<Rightarrow> pystr" where
  "write_txt [] = []"
| "write_txt (seg # segments) = (strip (seg_text seg) @ [LF]) @ write_txt segments"

subsection \<open>Lines of a text file\<close>

text \<open>
  The lines of a text, as the specification counts them: each line feed ends a line,
  and what follows the last line feed is one more line unless it is empty.
\<close>

fun lines_from :: "pystr \<Rightarrow> pystr \<Rightarrow> pystr list" where
  "lines_from cur [] = (if cur = [] then [] else [cur])"
| "lines_from cur (c # cs) =
     (if c = LF then cur # lines_from [] cs else lines_from (cur @ [c]) cs)"

definition file_lines :: "pystr \<Rightarrow> pystr list" where
  "file_lines content = lines_from [] content"

text \<open>The four lines that the specification gives block number \<open>i\<close> of a subtitle file.\<close>

definition srt_block_lines :: "nat \<Rightarrow> seg_data \<Rightarrow> pystr list" where
  "srt_block_lines i seg =
     [lit (str_nat i),
      lit (format_timestamp (seg_start seg) @ '' --> '' @ format_timestamp (seg_end seg)),
      strip (seg_text seg),
      []]"

section \<open>The world around a run\<close>

text \<open>
  A raised exception: the most specific of the three classes that the script
  distinguishes, and the text \<^verbatim>\<open>str(e)\<close>. \<open>BaseException\<close> stands for the
  exceptions that are not instances of \<^verbatim>\<open>Exception\<close> (\<^verbatim>\<open>KeyboardInterrupt\<close>,
  \<^verbatim>\<open>SystemExit\<close>, \<^verbatim>\<open>GeneratorExit\<close>); \<open>ImportError\<close> is a subclass of
  \<open>Exception\<close>.
\<close>

datatype exc_class = ImportError | Exception | BaseException

datatype py_exc = PyExc (exc_class: exc_class) (exc_str: pystr)

definition is_Exception :: "py_exc \<Rightarrow> bool" where
  "is_Exception e \<longleftrightarrow> exc_class e \<noteq> BaseException"

definition is_ImportError :: "py_exc \<Rightarrow> bool" where
  "is_ImportError e \<longleftrightarrow> exc_class e = ImportError"

text \<open>
  What happens inside the \<^verbatim>\<open>try\<close> block of \<^verbatim>\<open>check_cuda_available\<close>: importing
  \<^verbatim>\<open>ctranslate2\<close> or asking it for the compute types of \<^verbatim>\<open>"cuda"\<close> raises, or the
  call returns a collection of type names.
\<close>

datatype probe = ProbeRaises py_exc | ProbeTypes "pystr list"

definition check_cuda_available :: "probe \<Rightarrow> py_exc + bool" where
  "check_cuda_available p =
     (case p of
        ProbeTypes types \<Rightarrow> Inr (0 < length types \<and> lit ''float16'' \<in> set types)
      | ProbeRaises e \<Rightarrow> if is_Exception e then Inr False else Inl e)"

text \<open>
  A resolved path, as \<^verbatim>\<open>pathlib\<close> splits it: the directory, and the stem and suffix
  of the final component. Paths are POSIX paths.
\<close>

record fpath =
  path_parent :: pystr
  path_stem :: pystr
  path_suffix :: pystr

definition path_name :: "fpath \<Rightarrow> pystr" where
  "path_name p = path_stem p @ path_suffix p"

definition path_str :: "fpath \<Rightarrow> pystr" where
  "path_str p =
     (if path_parent p = lit ''/'' then path_parent p @ path_name p
      else path_parent p @ lit ''/'' @ path_name p)"

text \<open>
  The path \<^verbatim>\<open>output_dir / f"{base_name}_trascrizione<ext>"\<close>, for an extension
  \<open>ext\<close> that begins with a dot and has no other.
\<close>

definition artifact_path :: "fpath \<Rightarrow> string \<Rightarrow> fpath" where
  "artifact_path input_path ext =
     \<lparr>path_parent = path_parent input_path,
      path_stem = path_stem input_path @ lit ''_trascrizione'',
      path_suffix = lit ext\<rparr>"

text \<open>The attributes of an engine segment and of the run information that are read.\<close>

record segment =
  segment_id :: int
  segment_start :: rat
  segment_end :: rat
  segment_text :: pystr
  segment_avg_logprob :: rat
  segment_no_speech_prob :: rat

record transcription_info =
  info_language :: pystr
  info_language_probability :: rat
  info_duration :: rat

record transcribe_args =
  arg_audio :: pystr
  arg_language :: pystr
  arg_beam_size :: int
  arg_vad_filter :: bool
  arg_min_silence_duration_ms :: int

text \<open>
  The lazy segment sequence: the segments it yields, and the exception that ends the
  iteration if one does. A loaded model is its \<^verbatim>\<open>transcribe\<close> method.
\<close>

type_synonym seg_gen = "segment list \<times> py_exc option"

type_synonym whisper_model = "transcribe_args \<Rightarrow> py_exc + (seg_gen \<times> transcription_info)"

text \<open>
  Everything a run asks of its surroundings: the file system, the outcome of the
  accelerator probe, of importing \<^verbatim>\<open>faster_whisper\<close> and of constructing
  \<^verbatim>\<open>WhisperModel(name, device=..., compute_type=...)\<close>, and the three readings of the
  clock (the first two as seconds, the third already in ISO format). Opening and writing
  the output files is taken to succeed.
\<close>

record world =
  resolve :: "pystr \<Rightarrow> fpath"
  path_exists :: "fpath \<Rightarrow> bool"
  cuda_probe :: probe
  import_faster_whisper :: "py_exc option"
  WhisperModel :: "pystr \<Rightarrow> pystr \<Rightarrow> pystr \<Rightarrow> py_exc + whisper_model"
  start_time :: rat
  end_time :: rat
  now_isoformat :: pystr

subsection \<open>The metadata document\<close>

record parametri =
  modello :: pystr
  device :: pystr
  compute_type :: pystr
  beam_size :: int
  vad_filter :: bool
  lingua_impostata :: pystr

record info_audio =
  lingua_rilevata :: pystr
  probabilita_lingua :: rat
  durata_totale_secondi :: rat

record statistiche =
  numero_segmenti :: nat
  tempo_elaborazione_secondi :: rat

record json_data =
  file_sorgente :: pystr
  data_trascrizione :: pystr
  parametri :: parametri
  info_audio :: info_audio
  statistiche :: statistiche
  segmenti :: "seg_data list"
  testo_completo :: pystr

subsection \<open>What a run does\<close>

text \<open>
  The content of a written file: text, or the document handed to \<^verbatim>\<open>json.dump\<close>
  (its serialisation is not modelled). The effects of a run, in order: lines printed,
  the two calls into the engine, files written. A run returns, leaves through
  \<^verbatim>\<open>sys.exit\<close>, or is ended by an exception that nothing catches.
\<close>

datatype file_content = TextContent pystr | JsonContent json_data

datatype effect =
    Print pystr
  | LoadModel pystr pystr pystr
  | Transcribe transcribe_args
  | WriteFile fpath file_content

datatype status = Returned | Exit int | Raised py_exc

section \<open>The run\<close>

text \<open>The body of the loop over the segment sequence, with its three accumulators.\<close>

fun collect ::
  "segment list \<Rightarrow> seg_data list \<Rightarrow> pystr list \<Rightarrow> effect list \<Rightarrow>
   seg_data list \<times> pystr list \<times> effect list" where
  "collect [] segments_list full_text out = (segments_list, full_text, out)"
| "collect (segment # rest) segments_list full_text out =
     (let seg_data =
            \<lparr>seg_id = segment_id segment,
             seg_start = segment_start segment,
             seg_end = segment_end segment,
             seg_text = segment_text segment,
             seg_avg_logprob = segment_avg_logprob segment,
             seg_no_speech_prob = segment_no_speech_prob segment\<rparr>;
          timestamp = format_timestamp_simple (segment_start segment)
      in collect rest (segments_list @ [seg_data])
           (full_text @ [strip (segment_text segment)])
           (out @ [Print (lit timestamp @ lit '' '' @ strip (segment_text segment))]))"

text \<open>
  From \<^verbatim>\<open>end_time = datetime.now()\<close> to the end of \<^verbatim>\<open>trascrivi\<close>: the paths, the
  metadata document, the three files and the closing lines.
\<close>

definition save_results ::
  "world \<Rightarrow> fpath \<Rightarrow> int \<Rightarrow> pystr \<Rightarrow> pystr \<Rightarrow> transcription_info \<Rightarrow>
   seg_data list \<Rightarrow> pystr list \<Rightarrow> effect list" where
  "save_results w input_path beam_sz dev ctype info segments_list full_text =
     (let processing_duration = end_time w - start_time w;
          txt_path = artifact_path input_path ''.txt'';
          srt_path = artifact_path input_path ''.srt'';
          json_path = artifact_path input_path ''.json'';
          json_data =
            \<lparr>file_sorgente = path_str input_path,
             data_trascrizione = now_isoformat w,
             parametri =
               \<lparr>modello = lit ''large-v3'',
                device = dev,
                compute_type = ctype,
                beam_size = beam_sz,
                vad_filter = True,
                lingua_impostata = lit ''it''\<rparr>,
             info_audio =
               \<lparr>lingua_rilevata = info_language info,
                probabilita_lingua = info_language_probability info,
                durata_totale_secondi = info_duration info\<rparr>,
             statistiche =
               \<lparr>numero_segmenti = length segments_list,
                tempo_elaborazione_secondi = processing_duration\<rparr>,
             segmenti = segments_list,
             testo_completo = join [LF] full_text\<rparr>
      in [Print (replicate 60 (of_char CHR ''-'')),
          Print (LF # lit (''Trascrizione completata in '' @ format_1f processing_duration
                   @ '' secondi'')),
          WriteFile txt_path (TextContent (write_txt segments_list)),
          WriteFile srt_path (TextContent (write_srt segments_list)),
          WriteFile json_path (JsonContent json_data),
          Print (LF # lit ''File salvati:''),
          Print (lit ''  - Testo:      '' @ path_str txt_path),
          Print (lit ''  - Sottotitoli: '' @ path_str srt_path),
          Print (lit ''  - JSON:       '' @ path_str json_path),
          Print (LF # lit (''Durata audio: '' @ format_1f (info_duration info)
                   @ ''s | Lingua rilevata: '') @ info_language info
                   @ lit ('' ('' @ format_1pct (info_language_probability info) @ '')''))])"

text \<open>From the line after the model is loaded to the end of the loop.\<close>

definition transcribe_with ::
  "world \<Rightarrow> fpath \<Rightarrow> int \<Rightarrow> pystr \<Rightarrow> pystr \<Rightarrow> whisper_model \<Rightarrow> effect list \<times> status" where
  "transcribe_with w input_path beam_sz dev ctype model =
     (let args =
            \<lparr>arg_audio = path_str input_path,
             arg_language = lit ''it'',
             arg_beam_size = beam_sz,
             arg_vad_filter = True,
             arg_min_silence_duration_ms = 500\<rparr>;
          out =
            [Print (lit ''Modello caricato. Inizio trascrizione di: '' @ path_name input_path),
             Print (lit (''Parametri: beam_size='' @ str_int beam_sz
                      @ '', vad_filter=True, lingua=italiano'')),
             Print (replicate 60 (of_char CHR ''-'')),
             Transcribe args]
      in case model args of
           Inl e \<Rightarrow>
             if is_Exception e
             then (out @ [Print (lit ''Errore durante la trascrizione: '' @ exc_str e)], Exit 1)
             else (out, Raised e)
         | Inr ((items, failure), info) \<Rightarrow>
             (case collect items [] [] (out @ [Print (LF # lit ''Trascrizione in corso...'' @ [LF])])
              of (segments_list, full_text, out') \<Rightarrow>
                (case failure of
                   Some e \<Rightarrow> (out', Raised e)
                 | None \<Rightarrow>
                     (out' @ save_results w input_path beam_sz dev ctype info
                               segments_list full_text,
                      Returned))))"

text \<open>
  The function \<^verbatim>\<open>trascrivi(input_file, beam_size)\<close>: the effects it has, in order,
  and how it ends.
\<close>

definition trascrivi :: "world \<Rightarrow> pystr \<Rightarrow> int \<Rightarrow> effect list \<times> status" where
  "trascrivi w input_file beam_sz =
     (let input_path = resolve w input_file in
      if \<not> path_exists w input_path
      then ([Print (lit ''Errore: File non trovato: '' @ path_str input_path)], Exit 1)
      else
        let out0 =
              (if \<not> lower (path_suffix input_path) = lit ''.mp4''
               then [Print (lit ''Attenzione: Il file non ha estensione .mp4, procedo comunque...'')]
               else [])
        in case check_cuda_available (cuda_probe w) of
             Inl e \<Rightarrow> (out0, Raised e)
           | Inr use_cuda \<Rightarrow>
               let dev = (if use_cuda then lit ''cuda'' else lit ''cpu'');
                   ctype = (if use_cuda then lit ''float16'' else lit ''int8'');
                   out1 = out0 @
                     [Print (if use_cuda
                             then lit ''GPU CUDA rilevata, utilizzo accelerazione GPU con float16''
                             else lit ''Attenzione: CUDA non disponibile, utilizzo CPU (sar''
                                    @ [224] @ lit '' pi'' @ [249] @ lit '' lento)''),
                      Print (lit ''Caricamento modello large-v3...'')]
               in case import_faster_whisper w of
                    Some e \<Rightarrow>
                      if is_ImportError e
                      then (out1 @ [Print (lit
                              ''Errore: faster-whisper non installato. Esegui: pip install faster-whisper'')],
                            Exit 1)
                      else (out1, Raised e)
                  | None \<Rightarrow>
                      let out2 = out1 @ [LoadModel (lit ''large-v3'') dev ctype]
                      in case WhisperModel w (lit ''large-v3'') dev ctype of
                           Inl e \<Rightarrow>
                             if is_Exception e
                             then (out2
                                   @ [Print (lit ''Errore nel caricamento del modello: '' @ exc_str e)]
                                   @ (if py_in (lit ''CUDA'') (exc_str e) \<or> py_in (lit ''cuda'') (exc_str e)
                                      then [Print (lit
                                        ''Problema con CUDA. Verificare driver NVIDIA e installazione CUDA.'')]
                                      else []),
                                   Exit 1)
                             else (out2, Raised e)
                         | Inr model \<Rightarrow>
                             (case transcribe_with w input_path beam_sz dev ctype model of
                                (out3, st) \<Rightarrow> (out2 @ out3, st)))"

text \<open>
  The files a run has written, the engine loads it has asked for, and the metadata
  documents among the written files, in order.
\<close>

fun files_written :: "effect list \<Rightarrow> (fpath \<times> file_content) list" where
  "files_written [] = []"
| "files_written (WriteFile p c # es) = (p, c) # files_written es"
| "files_written (e # es) = files_written es"



subsection \<open>Names for the statements\<close>

text \<open>A text without a line feed.\<close>

definition single_line :: "pystr \<Rightarrow> bool" where
  "single_line t \<longleftrightarrow> LF \<notin> set t"

text \<open>
  The probe either returns, or raises an instance of \<^verbatim>\<open>Exception\<close>, the class that
  the handler of \<^verbatim>\<open>check_cuda_available\<close> names.
\<close>

definition probe_caught :: "probe \<Rightarrow> bool" where
  "probe_caught p = (case p of ProbeRaises e \<Rightarrow> is_Exception e | ProbeTypes types \<Rightarrow> True)"

text \<open>The dictionary that the loop builds from an engine segment.\<close>

definition seg_data_of :: "segment \<Rightarrow> seg_data" where
  "seg_data_of segment =
     \<lparr>seg_id = segment_id segment,
      seg_start = segment_start segment,
      seg_end = segment_end segment,
      seg_text = segment_text segment,
      seg_avg_logprob = segment_avg_logprob segment,
      seg_no_speech_prob = segment_no_speech_prob segment\<rparr>"

text \<open>The line that the loop prints for an engine segment.\<close>

definition progress_line :: "segment \<Rightarrow> effect" where
  "progress_line segment =
     Print (lit (format_timestamp_simple (segment_start segment)) @ lit '' ''
            @ strip (segment_text segment))"

text \<open>
  The device and compute type that \<^verbatim>\<open>trascrivi\<close> chooses for a probe result, and the
  arguments with which it calls \<^verbatim>\<open>model.transcribe\<close>.
\<close>

definition chosen_device :: "bool \<Rightarrow> pystr" where
  "chosen_device use_cuda = (if use_cuda then lit ''cuda'' else lit ''cpu'')"

definition chosen_compute_type :: "bool \<Rightarrow> pystr" where
  "chosen_compute_type use_cuda = (if use_cuda then lit ''float16'' else lit ''int8'')"

definition transcribe_call :: "fpath \<Rightarrow> int \<Rightarrow> transcribe_args" where
  "transcribe_call input_path beam_sz =
     \<lparr>arg_audio = path_str input_path,
      arg_language = lit ''it'',
      arg_beam_size = beam_sz,
      arg_vad_filter = True,
      arg_min_silence_duration_ms = 500\<rparr>"

subsection \<open>Sample inputs\<close>

definition sample_seg :: "rat \<Rightarrow> rat \<Rightarrow> pystr \<Rightarrow> seg_data" where
  "sample_seg a b t =
     \<lparr>seg_id = 1, seg_start = a, seg_end = b, seg_text = t,
      seg_avg_logprob = - 1 / 4, seg_no_speech_prob = 1 / 100\<rparr>"

definition sample_segment :: "rat \<Rightarrow> rat \<Rightarrow> pystr \<Rightarrow> segment" where
  "sample_segment a b t =
     \<lparr>segment_id = 1, segment_start = a, segment_end = b, segment_text = t,
      segment_avg_logprob = - 1 / 4, segment_no_speech_prob = 1 / 100\<rparr>"

definition sample_path :: fpath where
  "sample_path = \<lparr>path_parent = lit ''/home/u'', path_stem = lit ''video'', path_suffix = lit ''.mp4''\<rparr>"

definition sample_info :: transcription_info where
  "sample_info =
     \<lparr>info_language = lit ''it'', info_language_probability = 99 / 100, info_duration = 70\<rparr>"

text \<open>
  A world in which the input file exists, the probe behaves as given, the import and
  the load succeed, and the engine yields the given segments without failing.
\<close>

definition sample_world :: "probe \<Rightarrow> segment list \<Rightarrow> world" where
  "sample_world p items =
     \<lparr>resolve = (\<lambda>f. sample_path),
      path_exists = (\<lambda>q. True),
      cuda_probe = p,
      import_faster_whisper = None,
      WhisperModel = (\<lambda>m d c. Inr (\<lambda>args. Inr ((items, None), sample_info))),
      start_time = 100,
      end_time = 112,
      now_isoformat = lit ''2024-01-01T10:00:00''\<rparr>"


section \<open>Helper facts\<close>

lemma floor_divide_numeral_rat [simp]:
  "\<lfloor>(numeral a :: rat) / numeral b\<rfloor> = numeral a div numeral b"
  using floor_divide_of_int_eq [of "numeral a" "numeral b", where ?'a = rat] by simp

lemma floor_div_int:
  fixes x :: rat
  assumes "0 < n"
  shows "\<lfloor>x / of_int n\<rfloor> = \<lfloor>x\<rfloor> div n"
proof (rule floor_unique)
  have n: "(0::rat) < of_int n" using assms by simp
  have split: "\<lfloor>x\<rfloor> div n * n + \<lfloor>x\<rfloor> mod n = \<lfloor>x\<rfloor>" by (rule div_mult_mod_eq)
  have r: "0 \<le> \<lfloor>x\<rfloor> mod n" "\<lfloor>x\<rfloor> mod n < n" using assms by simp_all
  have "\<lfloor>x\<rfloor> div n * n \<le> \<lfloor>x\<rfloor>" using split r by linarith
  then have "(of_int (\<lfloor>x\<rfloor> div n * n) :: rat) \<le> of_int \<lfloor>x\<rfloor>" by (simp only: of_int_le_iff)
  also have "\<dots> \<le> x" by simp
  finally have "of_int (\<lfloor>x\<rfloor> div n) * of_int n \<le> x" by simp
  then show "of_int (\<lfloor>x\<rfloor> div n) \<le> x / of_int n"
    using n by (simp add: pos_le_divide_eq)
  have "(\<lfloor>x\<rfloor> div n + 1) * n = \<lfloor>x\<rfloor> div n * n + n" by (simp add: algebra_simps)
  then have "\<lfloor>x\<rfloor> + 1 \<le> (\<lfloor>x\<rfloor> div n + 1) * n" using split r by linarith
  then have "(of_int (\<lfloor>x\<rfloor> + 1) :: rat) \<le> of_int ((\<lfloor>x\<rfloor> div n + 1) * n)"
    by (simp only: of_int_le_iff)
  moreover have "x < of_int (\<lfloor>x\<rfloor> + 1)" using floor_correct [of x] by simp
  ultimately have "x < of_int ((\<lfloor>x\<rfloor> div n + 1) * n)" by linarith
  then have "x < (of_int (\<lfloor>x\<rfloor> div n) + 1) * of_int n" by simp
  then show "x / of_int n < of_int (\<lfloor>x\<rfloor> div n) + 1"
    using n by (simp add: pos_divide_less_eq)
qed

lemma py_int_of_int: "py_int (of_int k) = k"
  by (simp add: py_int_def)

lemma py_int_nonneg: "0 \<le> x \<Longrightarrow> py_int x = \<lfloor>x\<rfloor>"
  by (simp add: py_int_def)

lemma py_mod_bounds:
  assumes "0 < y"
  shows "0 \<le> py_mod x y" and "py_mod x y < y"
proof -
  have "of_int \<lfloor>x / y\<rfloor> * y \<le> x"
    using assms by (simp add: pos_le_divide_eq [symmetric])
  then show "0 \<le> py_mod x y" by (simp add: py_mod_def mult.commute)
  have "x / y < of_int \<lfloor>x / y\<rfloor> + 1" using floor_correct [of "x / y"] by simp
  then have "x < (of_int \<lfloor>x / y\<rfloor> + 1) * y"
    using assms by (simp only: pos_divide_less_eq)
  then show "py_mod x y < y" by (simp add: py_mod_def algebra_simps)
qed

lemma floor_py_mod:
  assumes "0 < n"
  shows "\<lfloor>py_mod x (of_int n)\<rfloor> = \<lfloor>x\<rfloor> mod n"
proof -
  have "py_mod x (of_int n) = x - of_int (n * (\<lfloor>x\<rfloor> div n))"
    using assms by (simp add: py_mod_def floor_div_int)
  then have "\<lfloor>py_mod x (of_int n)\<rfloor> = \<lfloor>x\<rfloor> - n * (\<lfloor>x\<rfloor> div n)"
    by (simp only: floor_diff_of_int)
  then show ?thesis by (simp add: minus_mult_div_eq_mod)
qed

subsection \<open>Timestamp fields and their printed form\<close>

lemma timestamp_fields_int:
  "timestamp_fields s = (\<lfloor>s\<rfloor> div 3600, \<lfloor>s\<rfloor> mod 3600 div 60, \<lfloor>s\<rfloor> mod 60, \<lfloor>s * 1000\<rfloor> mod 1000)"
proof -
  have h: "py_int (py_floordiv s 3600) = \<lfloor>s\<rfloor> div 3600"
    using floor_div_int [of 3600 s] by (simp add: py_floordiv_def py_int_of_int)
  have "\<lfloor>py_mod s 3600 / 60\<rfloor> = \<lfloor>py_mod s 3600\<rfloor> div 60"
    using floor_div_int [of 60 "py_mod s 3600"] by simp
  also have "\<dots> = \<lfloor>s\<rfloor> mod 3600 div 60"
    using floor_py_mod [of 3600 s] by simp
  finally have m: "py_int (py_floordiv (py_mod s 3600) 60) = \<lfloor>s\<rfloor> mod 3600 div 60"
    by (simp add: py_floordiv_def py_int_of_int)
  have sc: "py_int (py_mod s 60) = \<lfloor>s\<rfloor> mod 60"
    using floor_py_mod [of 60 s] py_mod_bounds(1) [of 60 s] by (simp add: py_int_nonneg)
  have "py_mod s 1 * 1000 = py_mod (s * 1000) 1000"
    by (simp add: py_mod_def algebra_simps)
  moreover have "0 \<le> py_mod (s * 1000) 1000" by (rule py_mod_bounds) simp
  ultimately have ms: "py_int (py_mod s 1 * 1000) = \<lfloor>s * 1000\<rfloor> mod 1000"
    using floor_py_mod [of 1000 "s * 1000"] by (simp add: py_int_nonneg)
  show ?thesis
    unfolding timestamp_fields_def Let_def h m sc ms ..
qed

lemma digit_char_cases:
  assumes "d < 10"
  shows "is_digit (digit_char d) \<and> digit_val (digit_char d) = d"
proof -
  from assms have "d \<in> {0, 1, 2, 3, 4, 5, 6, 7, 8, 9}" by auto
  then show ?thesis
    by (auto simp: digit_char_def is_digit_def digit_val_def)
qed

lemma str_nat_not_Nil: "str_nat n \<noteq> []"
  by (subst str_nat.simps) simp

lemma str_nat_digits: "list_all is_digit (str_nat n)"
proof (induction n rule: str_nat.induct)
  case (1 n)
  show ?case
  proof (cases "n < 10")
    case True
    then show ?thesis by (subst str_nat.simps) (simp add: digit_char_cases)
  next
    case False
    then show ?thesis using 1 by (subst str_nat.simps) (simp add: digit_char_cases)
  qed
qed

lemma str_nat_value: "foldl (\<lambda>a c. 10 * a + digit_val c) 0 (str_nat n) = n"
proof (induction n rule: str_nat.induct)
  case (1 n)
  show ?case
  proof (cases "n < 10")
    case True
    then show ?thesis by (subst str_nat.simps) (simp add: digit_char_cases)
  next
    case False
    then show ?thesis using 1 by (subst str_nat.simps) (simp add: digit_char_cases)
  qed
qed





lemma parse_decimal_str_nat: "parse_decimal (str_nat n) = Some n"
  by (simp add: parse_decimal_def str_nat_not_Nil str_nat_digits str_nat_value)

















lemma four_chars: "length xs = 4 \<Longrightarrow> \<exists>a b c d. xs = [a, b, c, d]"
  by (cases xs; cases "tl xs"; cases "tl (tl xs)"; cases "tl (tl (tl xs))") auto



subsection \<open>Lines of the written files\<close>

lemma single_line_lit_Nil: "single_line (lit [])"
  by (simp add: single_line_def lit_def)

lemma single_line_lit_Cons:
  "single_line (lit (c # cs)) = (of_char c \<noteq> LF \<and> single_line (lit cs))"
  by (auto simp: single_line_def lit_def)

lemma single_line_lit_append:
  "single_line (lit (xs @ ys)) = (single_line (lit xs) \<and> single_line (lit ys))"
  by (auto simp: single_line_def lit_def)

lemma single_line_zeros: "single_line (lit (replicate k (CHR ''0'')))"
  by (induction k) (simp_all add: single_line_lit_Nil single_line_lit_Cons)

lemma digit_char_not_LF: "d < 10 \<Longrightarrow> of_char (digit_char d) \<noteq> LF"
proof -
  assume "d < 10"
  then have "d \<in> {0, 1, 2, 3, 4, 5, 6, 7, 8, 9}" by auto
  then show ?thesis by (auto simp: digit_char_def)
qed

lemma single_line_str_nat: "single_line (lit (str_nat n))"
proof (induction n rule: str_nat.induct)
  case (1 n)
  show ?case
  proof (cases "n < 10")
    case True
    then show ?thesis
      by (subst str_nat.simps)
         (simp add: single_line_lit_Cons single_line_lit_Nil digit_char_not_LF)
  next
    case False
    then show ?thesis using 1
      by (subst str_nat.simps)
         (simp add: single_line_lit_append single_line_lit_Cons single_line_lit_Nil
            digit_char_not_LF)
  qed
qed

lemma single_line_format_0d: "single_line (lit (format_0d w n))"
  by (simp add: format_0d_def Let_def single_line_lit_append single_line_lit_Cons
      single_line_zeros single_line_str_nat)

lemma single_line_format_timestamp: "single_line (lit (format_timestamp s))"
proof -
  obtain h m sec ms where f: "timestamp_fields s = (h, m, sec, ms)"
    by (cases "timestamp_fields s") auto
  show ?thesis
    unfolding format_timestamp_def f
    by (simp add: single_line_lit_append single_line_lit_Cons single_line_lit_Nil
        single_line_format_0d)
qed

lemma single_line_timing:
  "single_line (lit (format_timestamp a @ '' --> '' @ format_timestamp b))"
  by (simp add: single_line_lit_append single_line_lit_Cons single_line_lit_Nil
      single_line_format_timestamp)

lemma lines_from_line:
  "single_line l \<Longrightarrow> lines_from cur (l @ LF # rest) = (cur @ l) # lines_from [] rest"
  by (induction l arbitrary: cur) (auto simp: single_line_def)

lemma file_lines_write_txt:
  "list_all (\<lambda>seg. single_line (strip (seg_text seg))) segments \<Longrightarrow>
   lines_from [] (write_txt segments) = map (\<lambda>seg. strip (seg_text seg)) segments"
  by (induction segments) (simp_all add: lines_from_line)

lemma file_lines_write_srt_from:
  "list_all (\<lambda>seg. single_line (strip (seg_text seg))) segments \<Longrightarrow>
   lines_from [] (write_srt_from i segments) =
     concat (map (\<lambda>(i, seg). srt_block_lines i seg) (enumerate i segments))"
proof (induction segments arbitrary: i)
  case Nil
  then show ?case by simp
next
  case (Cons seg segments)
  have "lines_from [] (write_srt_from i (seg # segments)) =
      lit (str_nat i) #
      lit (format_timestamp (seg_start seg) @ '' --> '' @ format_timestamp (seg_end seg)) #
      strip (seg_text seg) # [] # lines_from [] (write_srt_from (Suc i) segments)"
    using Cons.prems single_line_str_nat [of i]
      single_line_timing [of "seg_start seg" "seg_end seg"]
    by (simp add: lines_from_line)
  then show ?case using Cons by (simp add: srt_block_lines_def)
qed

lemma files_written_append: "files_written (xs @ ys) = files_written xs @ files_written ys"
  by (induction xs rule: files_written.induct) simp_all



lemma collect_eq:
  "collect items segments_list full_text out =
     (segments_list @ map seg_data_of items,
      full_text @ map (\<lambda>segment. strip (segment_text segment)) items,
      out @ map progress_line items)"
  by (induction items arbitrary: segments_list full_text out)
     (simp_all add: seg_data_of_def progress_line_def Let_def)

lemma files_written_progress: "files_written (map progress_line items) = []"
  by (induction items) (simp_all add: progress_line_def)

subsection \<open>Effects of a run\<close>



lemma files_written_save_results:
  "files_written (save_results w input_path beam_sz dev ctype info segments_list full_text) =
     [(artifact_path input_path ''.txt'', TextContent (write_txt segments_list)),
      (artifact_path input_path ''.srt'', TextContent (write_srt segments_list)),
      (artifact_path input_path ''.json'',
       JsonContent
         \<lparr>file_sorgente = path_str input_path,
          data_trascrizione = now_isoformat w,
          parametri =
            \<lparr>modello = lit ''large-v3'', device = dev, compute_type = ctype,
             beam_size = beam_sz, vad_filter = True, lingua_impostata = lit ''it''\<rparr>,
          info_audio =
            \<lparr>lingua_rilevata = info_language info,
             probabilita_lingua = info_language_probability info,
             durata_totale_secondi = info_duration info\<rparr>,
          statistiche =
            \<lparr>numero_segmenti = length segments_list,
             tempo_elaborazione_secondi = end_time w - start_time w\<rparr>,
          segmenti = segments_list,
          testo_completo = join [LF] full_text\<rparr>)]"
  by (simp add: save_results_def Let_def)





lemma transcribe_with_completes:
  assumes "model (transcribe_call input_path beam_sz) = Inr ((items, None), info)"
  shows "snd (transcribe_with w input_path beam_sz dev ctype model) = Returned"
    and "files_written (fst (transcribe_with w input_path beam_sz dev ctype model)) =
           files_written (save_results w input_path beam_sz dev ctype info
             (map seg_data_of items) (map (\<lambda>segment. strip (segment_text segment)) items))"
  using assms
  by (simp_all add: transcribe_with_def transcribe_call_def Let_def collect_eq
      files_written_append files_written_progress)

lemma write_txt_join:
  "segments \<noteq> [] \<Longrightarrow>
   write_txt segments = join [LF] (map (\<lambda>seg. strip (seg_text seg)) segments) @ [LF]"
proof (induction segments)
  case Nil
  then show ?case by simp
next
  case (Cons seg segments)
  then show ?case by (cases segments) simp_all
qed

lemma strip_text_seg_data_of:
  "map (\<lambda>seg. strip (seg_text seg)) (map seg_data_of items) =
   map (\<lambda>segment. strip (segment_text segment)) items"
  by (simp add: seg_data_of_def)

lemma save_results_probe_update:
  "save_results (w\<lparr>cuda_probe := p\<rparr>) = save_results w"
  by (intro ext) (simp add: save_results_def)

lemma transcribe_with_probe_update:
  "transcribe_with (w\<lparr>cuda_probe := p\<rparr>) = transcribe_with w"
  by (intro ext)
     (simp add: transcribe_with_def Let_def save_results_probe_update
        split: sum.splits prod.splits option.splits)

lemma trascrivi_depends_on_check:
  assumes "check_cuda_available p = check_cuda_available (cuda_probe w)"
  shows "trascrivi (w\<lparr>cuda_probe := p\<rparr>) input_file beam_sz = trascrivi w input_file beam_sz"
  using assms
  by (simp add: trascrivi_def Let_def transcribe_with_probe_update
      split: sum.splits prod.splits option.splits)

lemma trascrivi_after_load:
  assumes "path_exists w (resolve w input_file)"
    and "check_cuda_available (cuda_probe w) = Inr available"
    and "import_faster_whisper w = None"
    and "WhisperModel w (lit ''large-v3'') (chosen_device available)
           (chosen_compute_type available) = Inr model"
  shows "snd (trascrivi w input_file beam_sz) =
           snd (transcribe_with w (resolve w input_file) beam_sz (chosen_device available)
                  (chosen_compute_type available) model)"
    and "files_written (fst (trascrivi w input_file beam_sz)) =
           files_written (fst (transcribe_with w (resolve w input_file) beam_sz
             (chosen_device available) (chosen_compute_type available) model))"
  using assms
  by (simp_all add: trascrivi_def Let_def chosen_device_def chosen_compute_type_def
      files_written_append split: prod.splits)

lemma trascrivi_completes:
  assumes "path_exists w (resolve w input_file)"
    and "check_cuda_available (cuda_probe w) = Inr available"
    and "import_faster_whisper w = None"
    and "WhisperModel w (lit ''large-v3'') (chosen_device available)
           (chosen_compute_type available) = Inr model"
    and "model (transcribe_call (resolve w input_file) beam_sz) = Inr ((items, None), info)"
  shows "snd (trascrivi w input_file beam_sz) = Returned"
    and "files_written (fst (trascrivi w input_file beam_sz)) =
           files_written (save_results w (resolve w input_file) beam_sz
             (chosen_device available) (chosen_compute_type available) info
             (map seg_data_of items) (map (\<lambda>segment. strip (segment_text segment)) items))"
  using trascrivi_after_load [OF assms(1-4), of beam_sz]
    transcribe_with_completes [of model "resolve w input_file" beam_sz items info w
      "chosen_device available" "chosen_compute_type available", OF assms(5)]
  by simp_all



subsection \<open>Evaluating the writers on samples\<close>

lemma write_srt_from_blocks:
  "write_srt_from i segments =
     concat (map (\<lambda>(i, seg). lit (str_nat i) @ [LF]
        @ lit (format_timestamp (seg_start seg) @ '' --> '' @ format_timestamp (seg_end seg))
        @ [LF] @ strip (seg_text seg) @ [LF, LF]) (enumerate i segments))"
  by (induction segments arbitrary: i) simp_all

lemma length_concat_blocks:
  "length (concat (map (\<lambda>(i, seg). srt_block_lines i seg) (enumerate i segments))) =
     4 * length segments"
  by (induction segments arbitrary: i) (simp_all add: srt_block_lines_def)

lemma write_txt_pieces:
  "write_txt segments = concat (map (\<lambda>seg. strip (seg_text seg) @ [LF]) segments)"
  by (induction segments) simp_all

lemma str_nat_digit: "n < 10 \<Longrightarrow> str_nat n = [digit_char n]"
  by (subst str_nat.simps) simp

lemma str_nat_step: "10 \<le> n \<Longrightarrow> str_nat n = str_nat (n div 10) @ [digit_char (n mod 10)]"
  by (subst str_nat.simps) simp

lemma replicate_numeral_Cons: "replicate (numeral k) x = x # replicate (pred_numeral k) x"
  by (simp add: numeral_eq_Suc)

lemma format_timestamp_int:
  "format_timestamp s =
     format_0d 2 (\<lfloor>s\<rfloor> div 3600) @ '':'' @ format_0d 2 (\<lfloor>s\<rfloor> mod 3600 div 60) @ '':'' @
     format_0d 2 (\<lfloor>s\<rfloor> mod 60) @ '','' @ format_0d 3 (\<lfloor>s * 1000\<rfloor> mod 1000)"
  by (simp add: format_timestamp_def timestamp_fields_int)

lemma format_timestamp_samples:
  "format_timestamp 0 = ''00:00:00,000''"
  "format_timestamp 1 = ''00:00:01,000''"
  "format_timestamp (131 / 2) = ''00:01:05,500''"
  "format_timestamp 70 = ''00:01:10,000''"
  "format_timestamp (145 / 2) = ''00:01:12,500''"
  by (simp_all add: format_timestamp_int format_0d_def Let_def str_nat_digit str_nat_step
      digit_char_def replicate_numeral_Cons)


subsection \<open>The sample world\<close>


lemma sample_world_runs:
  "path_exists (sample_world p items) (resolve (sample_world p items) f)"
  "import_faster_whisper (sample_world p items) = None"
  "WhisperModel (sample_world p items) m dv c = Inr (\<lambda>args. Inr ((items, None), sample_info))"
  "cuda_probe (sample_world p items) = p"
  "resolve (sample_world p items) f = sample_path"
  by (simp_all add: sample_world_def)

section \<open>Claims about timestamps\<close>








section \<open>Claims about the artifact writers\<close>

text \<open>
  C4, as stated, fails: a segment whose text has a line feed inside, here
  \<^verbatim>\<open>"a\nb"\<close>, is left in place by \<^verbatim>\<open>strip()\<close>, and its block in the subtitle
  file has five lines, not four.
\<close>

theorem write_srt_text_with_line_feed:
  "file_lines (write_srt [sample_seg 0 1 (lit ''a'' @ [LF] @ lit ''b'')]) =
     [lit ''1'', lit ''00:00:00,000 --> 00:00:01,000'', lit ''a'', lit ''b'', []] \<and>
   length (file_lines (write_srt [sample_seg 0 1 (lit ''a'' @ [LF] @ lit ''b'')])) = 5"
  by (simp add: write_srt_def sample_seg_def file_lines_def strip_def isspace_def lit_def
      format_timestamp_samples str_nat_digit digit_char_def)

text \<open>
  C4, amended: for every segment list whose stripped texts contain no line feed, the
  lines of the file written by \<open>write_srt\<close> are, for the \<open>i\<close>-th segment (counted from
  1, in input order), exactly four: the index \<open>i\<close> alone, the timing line
  \<^verbatim>\<open>format_timestamp(start) --> format_timestamp(end)\<close>, the stripped text, and an
  empty line; the file contains nothing else. Whatever the texts, the content is the
  concatenation of these pieces, each ended by a line feed.
\<close>

theorem write_srt_four_lines:
  assumes "list_all (\<lambda>seg. single_line (strip (seg_text seg))) segments"
  shows "file_lines (write_srt segments) =
           concat (map (\<lambda>(i, seg). srt_block_lines i seg) (enumerate 1 segments)) \<and>
         length (file_lines (write_srt segments)) = 4 * length segments \<and>
         write_srt segments =
           concat (map (\<lambda>(i, seg). lit (str_nat i) @ [LF]
             @ lit (format_timestamp (seg_start seg) @ '' --> ''
                    @ format_timestamp (seg_end seg))
             @ [LF] @ strip (seg_text seg) @ [LF, LF]) (enumerate 1 segments))"
proof -
  have l: "file_lines (write_srt segments) =
      concat (map (\<lambda>(i, seg). srt_block_lines i seg) (enumerate 1 segments))"
    unfolding file_lines_def write_srt_def
    using assms by (simp add: file_lines_write_srt_from)
  show ?thesis
    using l length_concat_blocks [of 1 segments] write_srt_from_blocks [of 1 segments]
    by (simp add: write_srt_def)
qed

text \<open>
  C4, amended, on two segments, the first being the one of the specification's
  scenario (start 65.5, end 70.0, text \<^verbatim>\<open>" Hello world "\<close>).
\<close>

theorem write_srt_four_lines_witness:
  "list_all (\<lambda>seg. single_line (strip (seg_text seg)))
     [sample_seg (131 / 2) 70 (lit '' Hello world ''), sample_seg 70 (145 / 2) (lit ''Ciao'')] \<and>
   file_lines (write_srt
     [sample_seg (131 / 2) 70 (lit '' Hello world ''), sample_seg 70 (145 / 2) (lit ''Ciao'')]) =
     [lit ''1'', lit ''00:01:05,500 --> 00:01:10,000'', lit ''Hello world'', [],
      lit ''2'', lit ''00:01:10,000 --> 00:01:12,500'', lit ''Ciao'', []]"
proof -
  let ?segs = "[sample_seg (131 / 2) 70 (lit '' Hello world ''),
                sample_seg 70 (145 / 2) (lit ''Ciao'')]"
  have h: "list_all (\<lambda>seg. single_line (strip (seg_text seg))) ?segs"
    by (simp add: sample_seg_def single_line_def strip_def isspace_def lit_def)
  have l: "file_lines (write_srt ?segs) =
      concat (map (\<lambda>(i, seg). srt_block_lines i seg) (enumerate 1 ?segs))"
    using write_srt_four_lines [OF h] by (rule conjunct1)
  have e: "concat (map (\<lambda>(i, seg). srt_block_lines i seg) (enumerate 1 ?segs)) =
     [lit ''1'', lit ''00:01:05,500 --> 00:01:10,000'', lit ''Hello world'', [],
      lit ''2'', lit ''00:01:10,000 --> 00:01:12,500'', lit ''Ciao'', []]"
    by (simp add: srt_block_lines_def sample_seg_def strip_def isspace_def lit_def
        format_timestamp_samples str_nat_digit digit_char_def)
  show ?thesis using h trans [OF l e] by (rule conjI)
qed

text \<open>
  C5, as stated, fails on the same text: the file written by \<open>write_txt\<close> for the one
  segment \<^verbatim>\<open>"a\nb"\<close> has two lines.
\<close>

theorem write_txt_text_with_line_feed:
  "file_lines (write_txt [sample_seg 0 1 (lit ''a'' @ [LF] @ lit ''b'')]) = [lit ''a'', lit ''b''] \<and>
   length (file_lines (write_txt [sample_seg 0 1 (lit ''a'' @ [LF] @ lit ''b'')])) = 2"
  by (simp add: sample_seg_def file_lines_def strip_def isspace_def lit_def)

text \<open>
  C5, amended: for every segment list whose stripped texts contain no line feed, the
  file written by \<open>write_txt\<close> has exactly one line per segment, in segment order,
  each the segment's stripped text, and nothing else. Whatever the texts, the content is
  the stripped texts in order, each followed by a line feed.
\<close>

theorem write_txt_one_line_each:
  assumes "list_all (\<lambda>seg. single_line (strip (seg_text seg))) segments"
  shows "file_lines (write_txt segments) = map (\<lambda>seg. strip (seg_text seg)) segments \<and>
         length (file_lines (write_txt segments)) = length segments \<and>
         write_txt segments = concat (map (\<lambda>seg. strip (seg_text seg) @ [LF]) segments)"
  using assms file_lines_write_txt [of segments] write_txt_pieces [of segments]
  by (simp add: file_lines_def)

text \<open>C5, amended, on the same two segments.\<close>

theorem write_txt_one_line_each_witness:
  "list_all (\<lambda>seg. single_line (strip (seg_text seg)))
     [sample_seg (131 / 2) 70 (lit '' Hello world ''), sample_seg 70 (145 / 2) (lit ''Ciao'')] \<and>
   file_lines (write_txt
     [sample_seg (131 / 2) 70 (lit '' Hello world ''), sample_seg 70 (145 / 2) (lit ''Ciao'')]) =
     [lit ''Hello world'', lit ''Ciao'']"
proof -
  let ?segs = "[sample_seg (131 / 2) 70 (lit '' Hello world ''),
                sample_seg 70 (145 / 2) (lit ''Ciao'')]"
  have h: "list_all (\<lambda>seg. single_line (strip (seg_text seg))) ?segs"
    by (simp add: sample_seg_def single_line_def strip_def isspace_def lit_def)
  have l: "file_lines (write_txt ?segs) = map (\<lambda>seg. strip (seg_text seg)) ?segs"
    using write_txt_one_line_each [OF h] by (rule conjunct1)
  have e: "map (\<lambda>seg. strip (seg_text seg)) ?segs = [lit ''Hello world'', lit ''Ciao'']"
    by (simp add: sample_seg_def strip_def isspace_def lit_def)
  show ?thesis using h trans [OF l e] by (rule conjI)
qed

section \<open>Claims about the run\<close>

text \<open>
  C6, as stated, fails: the handler of \<open>check_cuda_available\<close> is
  \<^verbatim>\<open>except Exception\<close>, so an exception that is not an instance of
  \<^verbatim>\<open>Exception\<close>, such as a \<^verbatim>\<open>KeyboardInterrupt\<close> raised while
  \<^verbatim>\<open>ctranslate2\<close> is imported, leaves the function and ends the run.
\<close>

theorem check_cuda_available_propagates:
  "check_cuda_available (ProbeRaises (PyExc BaseException [])) = Inl (PyExc BaseException []) \<and>
   trascrivi (sample_world (ProbeRaises (PyExc BaseException [])) []) (lit ''video.mp4'') 5 =
     ([], Raised (PyExc BaseException []))"
  by (simp add: check_cuda_available_def is_Exception_def trascrivi_def Let_def
      sample_world_def sample_path_def lower_def lit_def)

text \<open>
  C6, amended: \<open>check_cuda_available\<close> never propagates an instance of
  \<^verbatim>\<open>Exception\<close>. Whenever the probe returns or raises such an exception, the
  function returns a boolean; it returns \<open>False\<close> when the probe raised, and the run
  then goes on exactly as a run in which the probe reported no compute type at all, so
  nothing of the error is observed.
\<close>

theorem check_cuda_available_catches:
  assumes "cuda_probe w = p" and "probe_caught p"
  shows "(\<exists>b. check_cuda_available p = Inr b) \<and>
         (case p of
            ProbeTypes types \<Rightarrow>
              check_cuda_available p = Inr (0 < length types \<and> lit ''float16'' \<in> set types)
          | ProbeRaises e \<Rightarrow>
              check_cuda_available p = Inr False \<and>
              trascrivi w input_file beam_sz =
                trascrivi (w\<lparr>cuda_probe := ProbeTypes []\<rparr>) input_file beam_sz)"
proof (cases p)
  case (ProbeTypes types)
  then show ?thesis by (simp add: check_cuda_available_def)
next
  case (ProbeRaises e)
  then have c: "check_cuda_available p = Inr False"
    using assms(2) by (simp add: check_cuda_available_def probe_caught_def)
  have "check_cuda_available (ProbeTypes []) = check_cuda_available (cuda_probe w)"
    using c assms(1) by (simp add: check_cuda_available_def)
  then have "trascrivi (w\<lparr>cuda_probe := ProbeTypes []\<rparr>) input_file beam_sz =
      trascrivi w input_file beam_sz"
    by (rule trascrivi_depends_on_check)
  moreover have "\<exists>b. check_cuda_available p = Inr b" using c by blast
  ultimately show ?thesis using c ProbeRaises by simp
qed

text \<open>C6, amended, for a probe that raises \<^verbatim>\<open>ImportError\<close>.\<close>

theorem check_cuda_available_catches_witness:
  "cuda_probe (sample_world (ProbeRaises (PyExc ImportError (lit ''No module named ctranslate2''))) [])
     = ProbeRaises (PyExc ImportError (lit ''No module named ctranslate2'')) \<and>
   probe_caught (ProbeRaises (PyExc ImportError (lit ''No module named ctranslate2''))) \<and>
   check_cuda_available (ProbeRaises (PyExc ImportError (lit ''No module named ctranslate2'')))
     = Inr False \<and>
   trascrivi (sample_world (ProbeRaises (PyExc ImportError (lit ''No module named ctranslate2''))) [])
       (lit ''video.mp4'') 5 =
     trascrivi ((sample_world (ProbeRaises (PyExc ImportError (lit ''No module named ctranslate2''))) [])
                  \<lparr>cuda_probe := ProbeTypes []\<rparr>) (lit ''video.mp4'') 5"
proof -
  let ?p = "ProbeRaises (PyExc ImportError (lit ''No module named ctranslate2''))"
  have h1: "cuda_probe (sample_world ?p []) = ?p" by (simp add: sample_world_def)
  have h2: "probe_caught ?p" by (simp add: probe_caught_def is_Exception_def)
  have "check_cuda_available ?p = Inr False \<and>
      trascrivi (sample_world ?p []) (lit ''video.mp4'') 5 =
      trascrivi ((sample_world ?p [])\<lparr>cuda_probe := ProbeTypes []\<rparr>) (lit ''video.mp4'') 5"
    using check_cuda_available_catches [OF h1 h2, of "lit ''video.mp4''" 5] by simp
  then show ?thesis using h1 h2 by (intro conjI) (rule h1, rule h2, simp_all only:)
qed







text \<open>
  C10: in a run that completes, the text file holds \<open>write_txt\<close> of the segments
  recorded in the metadata document, and \<open>testo_completo\<close> is the stripped texts joined
  by single line feeds. For a non-empty segment sequence the text file is
  \<open>testo_completo\<close> followed by exactly one line feed; for the empty sequence both are
  empty.
\<close>

theorem txt_is_testo_completo_and_newline:
  assumes "path_exists w (resolve w input_file)"
    and "check_cuda_available (cuda_probe w) = Inr available"
    and "import_faster_whisper w = None"
    and "WhisperModel w (lit ''large-v3'') (chosen_device available)
           (chosen_compute_type available) = Inr model"
    and "model (transcribe_call (resolve w input_file) beam_sz) = Inr ((items, None), info)"
  shows "\<exists>t d. files_written (fst (trascrivi w input_file beam_sz)) =
                [(artifact_path (resolve w input_file) ''.txt'', TextContent t),
                 (artifact_path (resolve w input_file) ''.srt'', TextContent (write_srt (segmenti d))),
                 (artifact_path (resolve w input_file) ''.json'', JsonContent d)] \<and>
              t = write_txt (segmenti d) \<and>
              segmenti d = map seg_data_of items \<and>
              testo_completo d = join [LF] (map (\<lambda>segment. strip (segment_text segment)) items) \<and>
              (if items = [] then t = [] \<and> testo_completo d = []
               else t = testo_completo d @ [LF])"
proof (cases "items = []")
  case True
  then show ?thesis
    using trascrivi_completes(2) [OF assms]
    by (simp add: files_written_save_results)
next
  case False
  then have "map seg_data_of items \<noteq> []" by simp
  then have "write_txt (map seg_data_of items) =
      join [LF] (map (\<lambda>seg. strip (seg_text seg)) (map seg_data_of items)) @ [LF]"
    by (rule write_txt_join)
  then have "write_txt (map seg_data_of items) =
      join [LF] (map (\<lambda>segment. strip (segment_text segment)) items) @ [LF]"
    by (simp only: strip_text_seg_data_of)
  then show ?thesis
    using False trascrivi_completes(2) [OF assms]
    by (simp add: files_written_save_results)
qed

text \<open>C10 for the sample world with two segments.\<close>

theorem txt_is_testo_completo_and_newline_witness:
  "\<exists>t d. files_written (fst (trascrivi
             (sample_world (ProbeTypes [])
                [sample_segment (131 / 2) 70 (lit '' Hello world ''),
                 sample_segment 70 (145 / 2) (lit ''Ciao'')])
             (lit ''video.mp4'') 5)) =
           [(artifact_path sample_path ''.txt'', TextContent t),
            (artifact_path sample_path ''.srt'', TextContent (write_srt (segmenti d))),
            (artifact_path sample_path ''.json'', JsonContent d)] \<and>
         testo_completo d = lit ''Hello world'' @ [LF] @ lit ''Ciao'' \<and>
         t = testo_completo d @ [LF]"
proof -
  let ?items = "[sample_segment (131 / 2) 70 (lit '' Hello world ''),
                 sample_segment 70 (145 / 2) (lit ''Ciao'')]"
  let ?w = "sample_world (ProbeTypes []) ?items"
  have h1: "path_exists ?w (resolve ?w (lit ''video.mp4''))" by (rule sample_world_runs)
  have h2: "check_cuda_available (cuda_probe ?w) = Inr False"
    by (simp add: sample_world_runs check_cuda_available_def)
  have h3: "import_faster_whisper ?w = None" by (rule sample_world_runs)
  have h4: "WhisperModel ?w (lit ''large-v3'') (chosen_device False) (chosen_compute_type False)
      = Inr (\<lambda>args. Inr ((?items, None), sample_info))"
    by (rule sample_world_runs)
  have h5: "(\<lambda>args. Inr ((?items, None), sample_info))
      (transcribe_call (resolve ?w (lit ''video.mp4'')) 5) = Inr ((?items, None), sample_info)"
    by simp
  have e: "join [LF] (map (\<lambda>segment. strip (segment_text segment)) ?items) =
      lit ''Hello world'' @ [LF] @ lit ''Ciao''"
    by (simp add: sample_segment_def strip_def isspace_def lit_def)
  have r: "resolve ?w (lit ''video.mp4'') = sample_path" by (rule sample_world_runs)
  from txt_is_testo_completo_and_newline [where beam_sz = 5, OF h1 h2 h3 h4 h5]
  obtain t d where
    f: "files_written (fst (trascrivi ?w (lit ''video.mp4'') 5)) =
          [(artifact_path (resolve ?w (lit ''video.mp4'')) ''.txt'', TextContent t),
           (artifact_path (resolve ?w (lit ''video.mp4'')) ''.srt'',
            TextContent (write_srt (segmenti d))),
           (artifact_path (resolve ?w (lit ''video.mp4'')) ''.json'', JsonContent d)]"
    and tc: "testo_completo d = join [LF] (map (\<lambda>segment. strip (segment_text segment)) ?items)"
    and c: "if ?items = [] then t = [] \<and> testo_completo d = []
            else t = testo_completo d @ [LF]"
    by blast
  have n: "t = testo_completo d @ [LF]" using c by simp
  have "files_written (fst (trascrivi ?w (lit ''video.mp4'') 5)) =
          [(artifact_path sample_path ''.txt'', TextContent t),
           (artifact_path sample_path ''.srt'', TextContent (write_srt (segmenti d))),
           (artifact_path sample_path ''.json'', JsonContent d)]"
    using f by (simp only: r)
  moreover have "testo_completo d = lit ''Hello world'' @ [LF] @ lit ''Ciao''"
    using tc by (simp only: e)
  ultimately show ?thesis using n by blast
qed

end
